theory Spec2Isabelle
  imports Complex_Main "HOL-Library.Word"
begin

section \<open>The dispatcher of asyncpg's protocol module (\<^verbatim>\<open>asyncpg/protocol/protocol.pyx\<close>)\<close>

text \<open>
  \<^verbatim>\<open>BaseProtocol\<close> couples at most one pending caller (the waiter, an asyncio future) to
  the next terminal event of the protocol engine (\<^verbatim>\<open>CoreProtocol\<close>), and owns the timeout
  and cancel orchestration. The embedding keeps the object's fields in one record, the
  asyncio futures, timer handles and prepared statements it points to in stores indexed by
  identity, and what it hands to its collaborators (the frames written to the transport,
  the calls on the transport, the cancel requests given to the connection) in logs.
  A method that can raise returns the exception beside the state it leaves behind: what was
  assigned before a \<^verbatim>\<open>raise\<close> stays assigned.
\<close>

subsection \<open>Python values and exceptions\<close>

type_synonym byte = "8 word"
type_synonym fut_id = nat
type_synonym handle_id = nat
type_synonym stmt_id = nat

text \<open>
  The exceptions of the module. \<open>TimeoutError\<close> is \<^verbatim>\<open>asyncio.TimeoutError\<close>, built without
  arguments. \<open>ConnectionDoesNotExistError\<close> carries its message and its \<^verbatim>\<open>__cause__\<close>.
  \<open>PostgresError\<close> stands for what \<^verbatim>\<open>PostgresMessage.new(fields, query=...)\<close> builds from the
  field map of an ErrorResponse. \<open>OtherError\<close> is any other \<^verbatim>\<open>Exception\<close> a collaborator
  raises (a codec, the reader, the sink), with its \<^verbatim>\<open>str()\<close>.
\<close>

datatype exc =
    InterfaceError string
  | TimeoutError
  | ConnectionDoesNotExistError string "exc option"
  | RuntimeError string
  | ValueError string
  | TypeError string
  | AttributeError string
  | IndexError string
  | InvalidStateError string
  | CancelledError
  | StopAsyncIteration
  | AssertionError
  | PostgresError "(string \<times> string) list" "string option"
  | OtherError string

text \<open>\<^verbatim>\<open>str(e)\<close>: the single argument the exception was built with, the empty string without one.\<close>

fun str_exc :: "exc \<Rightarrow> string" where
  "str_exc (InterfaceError m) = m"
| "str_exc TimeoutError = []"
| "str_exc (ConnectionDoesNotExistError m c) = m"
| "str_exc (RuntimeError m) = m"
| "str_exc (ValueError m) = m"
| "str_exc (TypeError m) = m"
| "str_exc (AttributeError m) = m"
| "str_exc (IndexError m) = m"
| "str_exc (InvalidStateError m) = m"
| "str_exc CancelledError = []"
| "str_exc StopAsyncIteration = []"
| "str_exc AssertionError = []"
| "str_exc (PostgresError fs q) = (case map_of fs ''M'' of Some m \<Rightarrow> m | None \<Rightarrow> [])"
| "str_exc (OtherError m) = m"

datatype pyval =
    PyNone
  | PyBool bool
  | PyInt int
  | PyStr string
  | PyBytes "byte list"
  | PyTuple "pyval list"
  | PyList "pyval list"
  | PyDict "(string \<times> string) list"
  | PyExc exc
  | PyStmt stmt_id

text \<open>Decimal rendering of an integer, for the messages built with \<^verbatim>\<open>str.format\<close>.\<close>

fun digits10 :: "nat \<Rightarrow> string" where
  "digits10 n = (if n < 10 then [char_of (48 + n)] else digits10 (n div 10) @ [char_of (48 + n mod 10)])"

declare digits10.simps [simp del]

definition str_int :: "int \<Rightarrow> string" where
  "str_int i = (if i < 0 then CHR ''-'' # digits10 (nat (- i)) else digits10 (nat i))"

subsection \<open>asyncio futures and timer handles\<close>

text \<open>
  An \<^verbatim>\<open>asyncio.Future\<close> is pending, holds a result, holds an exception or is cancelled.
  \<^verbatim>\<open>set_result\<close> and \<^verbatim>\<open>set_exception\<close> raise \<^verbatim>\<open>InvalidStateError\<close> on a future that is
  not pending; \<^verbatim>\<open>result()\<close> returns the result or raises what the future holds.
\<close>

datatype fut_state = Pending | Resolved pyval | Failed exc | Cancelled

definition fut_done :: "fut_state \<Rightarrow> bool" where
  "fut_done f = (f \<noteq> Pending)"

definition fut_cancelled :: "fut_state \<Rightarrow> bool" where
  "fut_cancelled f = (f = Cancelled)"

fun fut_result :: "fut_state \<Rightarrow> exc + pyval" where
  "fut_result Pending = Inl (InvalidStateError ''Result is not ready.'')"
| "fut_result (Resolved v) = Inr v"
| "fut_result (Failed e) = Inl e"
| "fut_result Cancelled = Inl CancelledError"

text \<open>
  A handle of \<^verbatim>\<open>loop.call_later(delay, self.timeout_callback, fut)\<close>: the delay, the future
  the callback will be called with, and whether \<^verbatim>\<open>cancel()\<close> was called on the handle. The
  callback is always \<^verbatim>\<open>self._on_timeout\<close> (\<^verbatim>\<open>timeout_callback\<close> is assigned once, in
  \<^verbatim>\<open>__init__\<close>).
\<close>

record timer_handle =
  th_delay :: real
  th_arg :: fut_id
  th_cancelled :: bool

subsection \<open>Prepared statements and codecs\<close>

text \<open>
  Modelled from the spec: \<^verbatim>\<open>PreparedStatementState\<close> and \<^verbatim>\<open>Codec\<close> live in
  \<^verbatim>\<open>prepared_stmt.pyx\<close> and \<^verbatim>\<open>codecs/base.pyx\<close>, which this file includes but which are
  not part of it. The spec gives a statement a name, the query text, a reference count, a
  closed flag and its parameter and row descriptors, and a codec the interface
  \<^verbatim>\<open>has_encoder()\<close>, \<^verbatim>\<open>encode(settings, writer, value)\<close> and \<^verbatim>\<open>oid\<close>. A codec is given here
  by what it does: \<open>encode v\<close> is the bytes \<^verbatim>\<open>codec.encode(settings, wbuf, v)\<close> appends to
  the buffer, or the exception it raises.
\<close>

record codec =
  oid :: nat
  has_encoder :: bool
  encode :: "pyval \<Rightarrow> exc + byte list"

record stmt =
  name :: string
  query_text :: string
  refs :: int
  closed :: bool
  args_desc :: pyval
  row_desc :: pyval
  rows_codecs :: "codec list"

subsection \<open>The engine's states and the frames it writes\<close>

text \<open>
  Modelled from the spec: the enumerations \<^verbatim>\<open>ProtocolState\<close> and \<^verbatim>\<open>ResultType\<close> are declared
  in \<^verbatim>\<open>coreproto.pxd\<close>, outside this file. The spec lists the engine states; the idle state
  the engine is reset to after a terminal event is added to them.
\<close>

datatype ProtocolState =
    PROTOCOL_IDLE
  | PROTOCOL_NOT_CONNECTED
  | PROTOCOL_AUTH
  | PROTOCOL_PREPARE
  | PROTOCOL_BIND_EXECUTE
  | PROTOCOL_BIND_EXECUTE_MANY
  | PROTOCOL_EXECUTE
  | PROTOCOL_BIND
  | PROTOCOL_CLOSE_STMT_PORTAL
  | PROTOCOL_SIMPLE_QUERY
  | PROTOCOL_COPY_OUT_DATA
  | PROTOCOL_COPY_OUT_DONE
  | PROTOCOL_COPY_IN_DATA
  | PROTOCOL_CANCELLED
  | PROTOCOL_TERMINATING
  | PROTOCOL_FAILED

datatype ResultType = RESULT_OK | RESULT_FAILED

text \<open>
  The frames of the frontend protocol the dispatcher causes to be written, by their
  content: \<open>Close_msg is_portal name\<close>, \<open>Execute_msg portal limit\<close>.
\<close>

datatype wire_msg =
    Parse_msg string string
  | Describe_msg string
  | Bind_msg string string "byte list"
  | Execute_msg string int
  | Sync_msg
  | Query_msg string
  | Close_msg bool string
  | CopyData_msg "byte list"
  | CopyDone_msg
  | CopyFail_msg string
  | Terminate_msg

datatype transport_call = Transport_abort | Transport_pause_reading | Transport_resume_reading

subsection \<open>The protocol object\<close>

text \<open>
  The fields of \<^verbatim>\<open>BaseProtocol\<close> assigned in \<^verbatim>\<open>__init__\<close>, the fields of \<^verbatim>\<open>CoreProtocol\<close> the
  dispatcher reads (\<open>state\<close> and the \<open>result\<close> fields, \<open>encoding\<close>), the one setting of the
  connection it reads (\<open>command_timeout\<close>, \<^verbatim>\<open>connection._config.command_timeout\<close>), the stores
  of the objects it points to, the logs of what it hands to its collaborators, and the
  monotonic clock \<^verbatim>\<open>Timer\<close> reads. \<open>writing_allowed\<close> is the flag of the \<^verbatim>\<open>asyncio.Event\<close>.
  \<open>cancel_commands\<close> lists the futures given to \<^verbatim>\<open>connection._cancel_current_command\<close>.
\<close>

record proto =
  waiter :: "fut_id option"
  cancel_waiter :: "fut_id option"
  cancel_sent_waiter :: "fut_id option"
  statement :: "stmt_id option"
  return_extra :: bool
  last_query :: "string option"
  closing :: bool
  is_reading :: bool
  writing_allowed :: bool
  timeout_handle :: "handle_id option"
  queries_count :: int
  state :: ProtocolState
  result_type :: ResultType
  result :: pyval
  result_status_msg :: pyval
  result_param_desc :: pyval
  result_row_desc :: pyval
  result_execute_completed :: bool
  encoding :: string
  command_timeout :: "real option"
  futures :: "fut_id \<Rightarrow> fut_state"
  next_future :: fut_id
  timers :: "handle_id \<Rightarrow> timer_handle"
  next_handle :: handle_id
  stmts :: "stmt_id \<Rightarrow> stmt"
  next_stmt :: stmt_id
  wire :: "wire_msg list"
  transport_calls :: "transport_call list"
  cancel_commands :: "fut_id list"
  clock :: real

text \<open>Sequencing of two steps that can raise: the second runs only when the first returned.\<close>

definition and_then :: "exc option \<times> proto \<Rightarrow> (proto \<Rightarrow> exc option \<times> proto) \<Rightarrow> exc option \<times> proto" where
  "and_then r f = (case r of (None, s) \<Rightarrow> f s | (Some e, s) \<Rightarrow> (Some e, s))"

text \<open>\<^verbatim>\<open>self.create_future()\<close>: a fresh pending future.\<close>

definition create_future :: "proto \<Rightarrow> fut_id \<times> proto" where
  "create_future s =
     (next_future s,
      s\<lparr>futures := (futures s)(next_future s := Pending), next_future := Suc (next_future s)\<rparr>)"

definition set_result :: "fut_id \<Rightarrow> pyval \<Rightarrow> proto \<Rightarrow> exc option \<times> proto" where
  "set_result f v s =
     (if futures s f = Pending then (None, s\<lparr>futures := (futures s)(f := Resolved v)\<rparr>)
      else (Some (InvalidStateError ''invalid state''), s))"

definition set_exception :: "fut_id \<Rightarrow> exc \<Rightarrow> proto \<Rightarrow> exc option \<times> proto" where
  "set_exception f e s =
     (if futures s f = Pending then (None, s\<lparr>futures := (futures s)(f := Failed e)\<rparr>)
      else (Some (InvalidStateError ''invalid state''), s))"

text \<open>\<^verbatim>\<open>loop.call_later(timeout, self.timeout_callback, fut)\<close> and \<^verbatim>\<open>handle.cancel()\<close>.\<close>

definition call_later :: "real \<Rightarrow> fut_id \<Rightarrow> proto \<Rightarrow> handle_id \<times> proto" where
  "call_later delay f s =
     (next_handle s,
      s\<lparr>timers := (timers s)(next_handle s := \<lparr>th_delay = delay, th_arg = f, th_cancelled = False\<rparr>),
        next_handle := Suc (next_handle s)\<rparr>)"

definition cancel_handle :: "handle_id \<Rightarrow> proto \<Rightarrow> proto" where
  "cancel_handle h s = s\<lparr>timers := (timers s)(h := (timers s h)\<lparr>th_cancelled := True\<rparr>)\<rparr>"

subsection \<open>Requests of the engine\<close>

text \<open>
  Modelled from the spec: the request methods of \<^verbatim>\<open>CoreProtocol\<close> (\<^verbatim>\<open>coreproto.pyx\<close>, outside
  this file). The spec's table of outbound request operations gives the frames each one
  sends and the state the engine is driven to; \<^verbatim>\<open>_set_state(PROTOCOL_CANCELLED)\<close> moves the
  engine to \<open>CANCELLED\<close>. The engine's own preconditions are not part of the model.
\<close>

definition write_msgs :: "wire_msg list \<Rightarrow> proto \<Rightarrow> proto" where
  "write_msgs ms s = s\<lparr>wire := wire s @ ms\<rparr>"

definition set_state :: "ProtocolState \<Rightarrow> proto \<Rightarrow> proto" where
  "set_state st s = s\<lparr>state := st\<rparr>"

definition terminate :: "proto \<Rightarrow> proto" where
  "terminate s = write_msgs [Terminate_msg] s"

text \<open>\<^verbatim>\<open>self.transport.abort()\<close>, \<^verbatim>\<open>pause_reading()\<close>, \<^verbatim>\<open>resume_reading()\<close>.\<close>

definition transport_call :: "transport_call \<Rightarrow> proto \<Rightarrow> proto" where
  "transport_call c s = s\<lparr>transport_calls := transport_calls s @ [c]\<rparr>"

subsection \<open>Cancellation, timeouts and the loss of the connection\<close>

text \<open>
  \<^verbatim>\<open>_request_cancel\<close>: two fresh futures, the second handed to
  \<^verbatim>\<open>connection._cancel_current_command\<close>, and the engine moved to \<open>CANCELLED\<close>.
\<close>

definition request_cancel :: "proto \<Rightarrow> proto" where
  "request_cancel s =
     (let (cw, s) = create_future s;
          s = s\<lparr>cancel_waiter := Some cw\<rparr>;
          (csw, s) = create_future s;
          s = s\<lparr>cancel_sent_waiter := Some csw\<rparr>;
          s = s\<lparr>cancel_commands := cancel_commands s @ [csw]\<rparr>
      in set_state PROTOCOL_CANCELLED s)"

text \<open>
  \<^verbatim>\<open>_on_timeout(fut)\<close>. The argument is an object reference: the timer passes the future it
  was armed with, \<^verbatim>\<open>copy_in\<close> passes \<^verbatim>\<open>self.waiter\<close>, which may be \<^verbatim>\<open>None\<close>. The \<^verbatim>\<open>or\<close> chain
  is evaluated left to right, so \<^verbatim>\<open>fut.done()\<close> on \<^verbatim>\<open>None\<close> raises \<^verbatim>\<open>AttributeError\<close> when the
  waiter slot is \<^verbatim>\<open>None\<close> too.
\<close>

definition on_timeout :: "fut_id option \<Rightarrow> proto \<Rightarrow> exc option \<times> proto" where
  "on_timeout fut s =
     (if waiter s \<noteq> fut then (None, s)
      else case fut of
        None \<Rightarrow> (Some (AttributeError ''done''), s)
      | Some f \<Rightarrow>
          if fut_done (futures s f) \<or> cancel_waiter s \<noteq> None \<or> timeout_handle s = None
          then (None, s)
          else (let s = request_cancel s in
                case waiter s of
                  None \<Rightarrow> (Some (AttributeError ''set_exception''), s)
                | Some w \<Rightarrow> set_exception w TimeoutError s))"

text \<open>\<^verbatim>\<open>_on_waiter_completed(fut)\<close>, the done-callback of every waiter.\<close>

definition on_waiter_completed :: "fut_id \<Rightarrow> proto \<Rightarrow> proto" where
  "on_waiter_completed fut s =
     (if waiter s \<noteq> Some fut \<or> cancel_waiter s \<noteq> None then s
      else if fut_cancelled (futures s fut) then
        (let s = (case timeout_handle s of
                    Some h \<Rightarrow> (cancel_handle h s)\<lparr>timeout_handle := None\<rparr>
                  | None \<Rightarrow> s)
         in request_cancel s)
      else s)"

definition handle_waiter_on_connection_lost :: "exc option \<Rightarrow> proto \<Rightarrow> exc option \<times> proto" where
  "handle_waiter_on_connection_lost cause s =
     and_then
       (case waiter s of
          Some w \<Rightarrow>
            if \<not> fut_done (futures s w) then
              set_exception w
                (ConnectionDoesNotExistError ''connection was closed in the middle of operation'' cause) s
            else (None, s)
        | None \<Rightarrow> (None, s))
       (\<lambda>s. (None, s\<lparr>waiter := None\<rparr>))"

definition on_connection_lost :: "exc option \<Rightarrow> proto \<Rightarrow> exc option \<times> proto" where
  "on_connection_lost ex s =
     (if closing s then
        and_then
          (case waiter s of
             Some w \<Rightarrow>
               if \<not> fut_done (futures s w) then
                 (case ex of None \<Rightarrow> set_result w PyNone s | Some e \<Rightarrow> set_exception w e s)
               else (None, s)
           | None \<Rightarrow> (None, s))
          (\<lambda>s. (None, s\<lparr>waiter := None\<rparr>))
      else handle_waiter_on_connection_lost ex (s\<lparr>closing := True\<rparr>))"

definition is_closed :: "proto \<Rightarrow> bool" where
  "is_closed s = closing s"


definition pause_writing :: "proto \<Rightarrow> proto" where
  "pause_writing s = s\<lparr>writing_allowed := False\<rparr>"


subsection \<open>Timeout arguments\<close>

text \<open>
  A timeout argument is an arbitrary Python object. The code tells apart \<^verbatim>\<open>None\<close>, the
  sentinel \<^verbatim>\<open>NO_TIMEOUT\<close> (an \<^verbatim>\<open>object()\<close>) and, by \<^verbatim>\<open>type(timeout) is bool\<close>, a Boolean;
  everything else goes through \<^verbatim>\<open>float()\<close>. \<open>T_float\<close> is a float; \<open>T_obj r f\<close> is any other
  object (an int, a str, a Decimal), given by its \<^verbatim>\<open>repr()\<close> and by what \<^verbatim>\<open>float()\<close> returns or
  raises on it. Floats are the real numbers they denote: only the comparison with zero and
  the subtraction of clock readings are computed on them.
\<close>

datatype timeout_arg =
    T_None
  | T_NO_TIMEOUT
  | T_bool bool
  | T_float real
  | T_obj string "exc + real"

fun py_float :: "timeout_arg \<Rightarrow> exc + real" where
  "py_float T_None = Inl (TypeError ''float() argument must be a string or a number'')"
| "py_float T_NO_TIMEOUT = Inl (TypeError ''float() argument must be a string or a number'')"
| "py_float (T_bool b) = Inr (if b then 1 else 0)"
| "py_float (T_float f) = Inr f"
| "py_float (T_obj r f) = f"

definition get_timeout_impl :: "timeout_arg \<Rightarrow> proto \<Rightarrow> exc + real option" where
  "get_timeout_impl timeout s =
     (case (case timeout of
              T_None \<Rightarrow> Inr (command_timeout s)
            | T_NO_TIMEOUT \<Rightarrow> Inr None
            | _ \<Rightarrow> (case py_float timeout of Inl e \<Rightarrow> Inl e | Inr f \<Rightarrow> Inr (Some f))) of
        Inl e \<Rightarrow> Inl e
      | Inr None \<Rightarrow> Inr None
      | Inr (Some t) \<Rightarrow> if t \<le> 0 then Inl TimeoutError else Inr (Some t))"

definition invalid_timeout :: "string \<Rightarrow> exc" where
  "invalid_timeout r =
     ValueError (''invalid timeout value: expected non-negative float (got '' @ r @ '')'')"

text \<open>
  \<^verbatim>\<open>_get_timeout\<close>: a Boolean raises \<^verbatim>\<open>ValueError\<close> inside the \<^verbatim>\<open>try\<close>, and a \<^verbatim>\<open>ValueError\<close> of
  \<^verbatim>\<open>float()\<close> is caught there too; both are raised again with the message that quotes the
  argument. Any other exception of \<^verbatim>\<open>float()\<close> (the \<^verbatim>\<open>TypeError\<close> on the sentinel) is not
  caught.
\<close>

definition get_timeout :: "timeout_arg \<Rightarrow> proto \<Rightarrow> exc + real option" where
  "get_timeout timeout s =
     (case timeout of
        T_None \<Rightarrow> get_timeout_impl T_None s
      | T_bool b \<Rightarrow> Inl (invalid_timeout (if b then ''True'' else ''False''))
      | T_obj r f \<Rightarrow>
          (case f of
             Inl (ValueError m) \<Rightarrow> Inl (invalid_timeout r)
           | Inl e \<Rightarrow> Inl e
           | Inr v \<Rightarrow> get_timeout_impl (T_float v) s)
      | _ \<Rightarrow>
          (case py_float timeout of
             Inl e \<Rightarrow> Inl e
           | Inr v \<Rightarrow> get_timeout_impl (T_float v) s))"

subsection \<open>The state check and the waiter\<close>

definition check_state :: "proto \<Rightarrow> exc option" where
  "check_state s =
     (if cancel_waiter s \<noteq> None then
        Some (InterfaceError ''cannot perform operation: another operation is cancelling'')
      else if closing s then
        Some (InterfaceError ''cannot perform operation: connection is closed'')
      else if waiter s \<noteq> None \<or> timeout_handle s \<noteq> None then
        Some (InterfaceError ''cannot perform operation: another operation is in progress'')
      else None)"

text \<open>
  \<^verbatim>\<open>_new_waiter(timeout)\<close>. The done-callback it registers, \<^verbatim>\<open>_on_waiter_completed\<close>, is run by
  the event loop after the future has completed: it is a step of the environment.
\<close>

definition new_waiter :: "real option \<Rightarrow> proto \<Rightarrow> (exc + fut_id) \<times> proto" where
  "new_waiter timeout s =
     (if waiter s \<noteq> None then
        (Inl (InterfaceError ''cannot perform operation: another operation is in progress''), s)
      else
        (let (w, s) = create_future s;
             s = s\<lparr>waiter := Some w\<rparr>;
             s = (case timeout of
                    Some t \<Rightarrow> (let (h, s) = call_later t w s in s\<lparr>timeout_handle := Some h\<rparr>)
                  | None \<Rightarrow> s)
         in (Inr w, s)))"

text \<open>
  The event loop runs a timer handle that was not cancelled: it calls \<^verbatim>\<open>_on_timeout\<close> with
  the future the handle was armed with.
\<close>

definition timer_fires :: "handle_id \<Rightarrow> proto \<Rightarrow> exc option \<times> proto" where
  "timer_fires h s =
     (if th_cancelled (timers s h) then (None, s)
      else on_timeout (Some (th_arg (timers s h))) s)"

subsection \<open>Terminal results\<close>

text \<open>
  What the dispatcher takes from outside this file: the compile-time constants
  \<^verbatim>\<open>ASYNCPG_DEBUG\<close> and \<^verbatim>\<open>_COPY_BUFFER_SIZE\<close>, \<^verbatim>\<open>bytes.decode(encoding)\<close>, and
  \<^verbatim>\<open>PreparedStatementState._encode_bind_msg(args)\<close>, given by the bytes it returns or the
  exception it raises. They are parameters of the model.
\<close>

record ext =
  ASYNCPG_DEBUG :: bool
  COPY_BUFFER_SIZE :: nat
  decode :: "string \<Rightarrow> byte list \<Rightarrow> exc + string"
  encode_bind_msg :: "stmt \<Rightarrow> pyval \<Rightarrow> exc + byte list"

text \<open>\<^verbatim>\<open>self.result_status_msg.decode(self.encoding)\<close>; \<^verbatim>\<open>None\<close> has no \<^verbatim>\<open>decode\<close>.\<close>

definition decode_status_msg :: "ext \<Rightarrow> proto \<Rightarrow> exc + string" where
  "decode_status_msg x s =
     (case result_status_msg s of
        PyBytes b \<Rightarrow> decode x (encoding s) b
      | _ \<Rightarrow> Inl (AttributeError ''decode''))"

definition pause_reading :: "proto \<Rightarrow> proto" where
  "pause_reading s =
     (if is_reading s then transport_call Transport_pause_reading (s\<lparr>is_reading := False\<rparr>) else s)"

definition resume_reading :: "proto \<Rightarrow> proto" where
  "resume_reading s =
     (if \<not> is_reading s then transport_call Transport_resume_reading (s\<lparr>is_reading := True\<rparr>) else s)"

definition on_result__connect :: "fut_id \<Rightarrow> proto \<Rightarrow> exc option \<times> proto" where
  "on_result__connect w s = set_result w (PyBool True) s"

text \<open>
  Modelled from the spec: \<^verbatim>\<open>_set_args_desc\<close> and \<^verbatim>\<open>_set_row_desc\<close> of
  \<^verbatim>\<open>PreparedStatementState\<close> (outside this file) stash the descriptor on the statement.
\<close>

definition on_result__prepare :: "ext \<Rightarrow> fut_id \<Rightarrow> proto \<Rightarrow> exc option \<times> proto" where
  "on_result__prepare x w s =
     (if ASYNCPG_DEBUG x \<and> statement s = None then
        (Some (RuntimeError ''_on_result__prepare: statement is None''), s)
      else case statement s of
        None \<Rightarrow>
          if result_param_desc s \<noteq> PyNone then (Some (AttributeError ''_set_args_desc''), s)
          else if result_row_desc s \<noteq> PyNone then (Some (AttributeError ''_set_row_desc''), s)
          else set_result w PyNone s
      | Some st \<Rightarrow>
          (let s = (if result_param_desc s \<noteq> PyNone
                    then s\<lparr>stmts := (stmts s)(st := (stmts s st)\<lparr>args_desc := result_param_desc s\<rparr>)\<rparr>
                    else s);
               s = (if result_row_desc s \<noteq> PyNone
                    then s\<lparr>stmts := (stmts s)(st := (stmts s st)\<lparr>row_desc := result_row_desc s\<rparr>)\<rparr>
                    else s)
           in set_result w (PyStmt st) s))"

definition on_result__bind_and_exec :: "fut_id \<Rightarrow> proto \<Rightarrow> exc option \<times> proto" where
  "on_result__bind_and_exec w s =
     (if return_extra s then
        set_result w
          (PyTuple [result s, result_status_msg s, PyBool (result_execute_completed s)]) s
      else set_result w (result s) s)"

definition on_result__bind :: "fut_id \<Rightarrow> proto \<Rightarrow> exc option \<times> proto" where
  "on_result__bind w s = set_result w (result s) s"

definition on_result__close_stmt_or_portal :: "fut_id \<Rightarrow> proto \<Rightarrow> exc option \<times> proto" where
  "on_result__close_stmt_or_portal w s = set_result w (result s) s"

definition on_result__simple_query :: "ext \<Rightarrow> fut_id \<Rightarrow> proto \<Rightarrow> exc option \<times> proto" where
  "on_result__simple_query x w s =
     (case decode_status_msg x s of
        Inl e \<Rightarrow> (Some e, s)
      | Inr m \<Rightarrow> set_result w (PyStr m) s)"

definition on_result__copy_out :: "ext \<Rightarrow> fut_id \<Rightarrow> proto \<Rightarrow> exc option \<times> proto" where
  "on_result__copy_out x w s =
     (let copy_done = (state s = PROTOCOL_COPY_OUT_DONE) in
      case (if copy_done then map_sum id PyStr (decode_status_msg x s) else Inr PyNone) of
        Inl e \<Rightarrow> (Some e, s)
      | Inr status_msg \<Rightarrow>
          (let s = pause_reading s
           in set_result w (PyTuple [result s, PyBool copy_done, status_msg]) s))"

definition on_result__copy_in :: "ext \<Rightarrow> fut_id \<Rightarrow> proto \<Rightarrow> exc option \<times> proto" where
  "on_result__copy_in x w s =
     (case decode_status_msg x s of
        Inl e \<Rightarrow> (Some e, s)
      | Inr m \<Rightarrow> set_result w (PyStr m) s)"

text \<open>
  The chain of comparisons on \<^verbatim>\<open>self.state\<close> in \<^verbatim>\<open>_dispatch_result\<close>. The number of the state,
  which the last message quotes, is assigned outside this file and left out of it.
\<close>

definition on_result_by_state :: "ext \<Rightarrow> fut_id \<Rightarrow> proto \<Rightarrow> exc option \<times> proto" where
  "on_result_by_state x w s =
     (if state s = PROTOCOL_AUTH then on_result__connect w s
      else if state s = PROTOCOL_PREPARE then on_result__prepare x w s
      else if state s = PROTOCOL_BIND_EXECUTE then on_result__bind_and_exec w s
      else if state s = PROTOCOL_BIND_EXECUTE_MANY then on_result__bind_and_exec w s
      else if state s = PROTOCOL_EXECUTE then on_result__bind_and_exec w s
      else if state s = PROTOCOL_BIND then on_result__bind w s
      else if state s = PROTOCOL_CLOSE_STMT_PORTAL then on_result__close_stmt_or_portal w s
      else if state s = PROTOCOL_SIMPLE_QUERY then on_result__simple_query x w s
      else if state s = PROTOCOL_COPY_OUT_DATA \<or> state s = PROTOCOL_COPY_OUT_DONE
        then on_result__copy_out x w s
      else if state s = PROTOCOL_COPY_IN_DATA then on_result__copy_in x w s
      else (Some (RuntimeError ''got result for unknown protocol state''), s))"

text \<open>
  \<^verbatim>\<open>_dispatch_result\<close>. With \<^verbatim>\<open>ASYNCPG_DEBUG\<close> off, \<^verbatim>\<open>waiter.cancelled()\<close> on \<^verbatim>\<open>None\<close> raises
  \<^verbatim>\<open>AttributeError\<close>. \<^verbatim>\<open>set_exception\<close> refuses an object that is not an exception.
\<close>

definition dispatch_result :: "ext \<Rightarrow> proto \<Rightarrow> exc option \<times> proto" where
  "dispatch_result x s0 =
     (let w0 = waiter s0; s = s0\<lparr>waiter := None\<rparr> in
      if ASYNCPG_DEBUG x \<and> w0 = None then (Some (RuntimeError ''_on_result: waiter is None''), s)
      else case w0 of
        None \<Rightarrow> (Some (AttributeError ''cancelled''), s)
      | Some w \<Rightarrow>
          if fut_cancelled (futures s w) then (None, s)
          else if fut_done (futures s w) then (Some (RuntimeError ''_on_result: waiter is done''), s)
          else if result_type s = RESULT_FAILED then
            (case result s of
               PyDict fs \<Rightarrow> set_exception w (PostgresError fs (last_query s)) s
             | PyExc e \<Rightarrow> set_exception w e s
             | _ \<Rightarrow> (Some (TypeError ''invalid exception object''), s))
          else
            (case on_result_by_state x w s of
               (Some e, s) \<Rightarrow> set_exception w e s
             | (None, s) \<Rightarrow> (None, s)))"

text \<open>\<^verbatim>\<open>_on_result\<close>: the \<^verbatim>\<open>finally\<close> clause runs whether or not the dispatch raised.\<close>

definition on_result :: "ext \<Rightarrow> proto \<Rightarrow> exc option \<times> proto" where
  "on_result x s =
     (let s = (case timeout_handle s of
                 Some h \<Rightarrow> (cancel_handle h s)\<lparr>timeout_handle := None\<rparr>
               | None \<Rightarrow> s)
      in case cancel_waiter s of
           Some cw \<Rightarrow>
             and_then (set_result cw PyNone s)
               (\<lambda>s. (None, s\<lparr>cancel_waiter := None, waiter := None\<rparr>))
         | None \<Rightarrow>
             (case dispatch_result x s of
                (r, s) \<Rightarrow> (r, s\<lparr>statement := None, last_query := None, return_extra := False\<rparr>)))"

subsection \<open>More requests of the engine\<close>

text \<open>
  Modelled from the spec: the request methods of \<^verbatim>\<open>CoreProtocol\<close> behind the public
  operations, from the spec's table of outbound request operations: the frames each one
  sends and the state it drives the engine to. \<^verbatim>\<open>_bind_execute_many\<close> takes the lazily
  encoded argument buffers, each the bytes or the exception its encoding raises; the
  spec sends a Bind and an Execute(0) for each and then one Sync, and does not say what has
  been written when an encoding raises: the model raises before writing.
  \<^verbatim>\<open>PreparedStatementState(name, query, protocol)\<close> is a fresh statement with no references.
\<close>

definition core_prepare :: "string \<Rightarrow> string \<Rightarrow> proto \<Rightarrow> proto" where
  "core_prepare stmt_name q s =
     set_state PROTOCOL_PREPARE (write_msgs [Parse_msg stmt_name q, Describe_msg stmt_name, Sync_msg] s)"

definition core_bind_execute :: "string \<Rightarrow> string \<Rightarrow> byte list \<Rightarrow> int \<Rightarrow> proto \<Rightarrow> proto" where
  "core_bind_execute portal stmt_name data limit s =
     set_state PROTOCOL_BIND_EXECUTE
       (write_msgs [Bind_msg portal stmt_name data, Execute_msg portal limit, Sync_msg] s)"

fun first_error :: "(exc + 'a) list \<Rightarrow> exc option" where
  "first_error [] = None"
| "first_error (Inl e # bs) = Some e"
| "first_error (Inr b # bs) = first_error bs"

fun bind_execute_frames :: "string \<Rightarrow> string \<Rightarrow> (exc + byte list) list \<Rightarrow> wire_msg list" where
  "bind_execute_frames portal stmt_name [] = []"
| "bind_execute_frames portal stmt_name (Inr data # bs) =
     Bind_msg portal stmt_name data # Execute_msg portal 0 # bind_execute_frames portal stmt_name bs"
| "bind_execute_frames portal stmt_name (Inl e # bs) = []"

definition core_bind_execute_many ::
    "string \<Rightarrow> string \<Rightarrow> (exc + byte list) list \<Rightarrow> proto \<Rightarrow> exc option \<times> proto" where
  "core_bind_execute_many portal stmt_name bufs s =
     (case first_error bufs of
        Some e \<Rightarrow> (Some e, s)
      | None \<Rightarrow>
          (None, set_state PROTOCOL_BIND_EXECUTE_MANY
                   (write_msgs (bind_execute_frames portal stmt_name bufs @ [Sync_msg]) s)))"

definition core_bind :: "string \<Rightarrow> string \<Rightarrow> byte list \<Rightarrow> proto \<Rightarrow> proto" where
  "core_bind portal stmt_name data s =
     set_state PROTOCOL_BIND (write_msgs [Bind_msg portal stmt_name data, Sync_msg] s)"

definition core_execute :: "string \<Rightarrow> int \<Rightarrow> proto \<Rightarrow> proto" where
  "core_execute portal limit s =
     set_state PROTOCOL_EXECUTE (write_msgs [Execute_msg portal limit, Sync_msg] s)"

definition core_simple_query :: "string \<Rightarrow> proto \<Rightarrow> proto" where
  "core_simple_query q s = set_state PROTOCOL_SIMPLE_QUERY (write_msgs [Query_msg q] s)"

definition core_close :: "string \<Rightarrow> bool \<Rightarrow> proto \<Rightarrow> proto" where
  "core_close nm is_portal s =
     set_state PROTOCOL_CLOSE_STMT_PORTAL (write_msgs [Close_msg is_portal nm, Sync_msg] s)"

definition core_copy_out :: "string \<Rightarrow> proto \<Rightarrow> proto" where
  "core_copy_out copy_stmt s = set_state PROTOCOL_COPY_OUT_DATA (write_msgs [Query_msg copy_stmt] s)"

definition core_copy_in :: "string \<Rightarrow> proto \<Rightarrow> proto" where
  "core_copy_in copy_stmt s = set_state PROTOCOL_COPY_IN_DATA (write_msgs [Query_msg copy_stmt] s)"

definition write_copy_data_msg :: "byte list \<Rightarrow> proto \<Rightarrow> proto" where
  "write_copy_data_msg data s = write_msgs [CopyData_msg data] s"

definition write_copy_done_msg :: "proto \<Rightarrow> proto" where
  "write_copy_done_msg s = write_msgs [CopyDone_msg] s"

definition write_copy_fail_msg :: "string \<Rightarrow> proto \<Rightarrow> proto" where
  "write_copy_fail_msg cause s = write_msgs [CopyFail_msg cause] s"

definition new_statement :: "string \<Rightarrow> string \<Rightarrow> proto \<Rightarrow> stmt_id \<times> proto" where
  "new_statement stmt_name q s =
     (next_stmt s,
      s\<lparr>stmts := (stmts s)(next_stmt s :=
              \<lparr>name = stmt_name, query_text = q, refs = 0, closed = False, args_desc = PyNone,
               row_desc = PyNone, rows_codecs = []\<rparr>),
        next_stmt := Suc (next_stmt s)\<rparr>)"

subsection \<open>Coroutines\<close>

text \<open>
  An \<^verbatim>\<open>async def\<close> runs until it returns, raises, or awaits something that is not ready.
  Then it is suspended: the event loop runs other callbacks of the protocol, which change the
  object, and resumes the coroutine later, on the object as it is then. A coroutine is
  therefore a tree: \<open>Finished r s\<close> has returned (\<open>Inr\<close>) or raised (\<open>Inl\<close>) leaving the object
  as \<open>s\<close>; \<open>Suspended a s k\<close> waits for \<open>a\<close> having left the object as \<open>s\<close>, and continues as
  \<open>k s'\<close> when it is resumed on \<open>s'\<close>. \<open>Out_of_fuel\<close> is the model of \<^verbatim>\<open>copy_out\<close> giving up: its
  loop has no bound in the code.
\<close>

datatype awaited = On_future fut_id | On_writing_allowed | On_reader | On_sink pyval

datatype coro =
    Finished "exc + pyval" proto
  | Suspended awaited proto "proto \<Rightarrow> coro"
  | Out_of_fuel

text \<open>
  \<open>on_outcome c f\<close> runs \<open>c\<close> and then \<open>f\<close> on what \<open>c\<close> returned or raised (a \<^verbatim>\<open>try\<close> with
  handlers); \<open>on_return c f\<close> runs \<open>f\<close> only on what \<open>c\<close> returned, an exception of \<open>c\<close>
  propagates.
\<close>

primrec on_outcome :: "coro \<Rightarrow> (exc + pyval \<Rightarrow> proto \<Rightarrow> coro) \<Rightarrow> coro" where
  "on_outcome (Finished r s) f = f r s"
| "on_outcome (Suspended a s k) f = Suspended a s (\<lambda>s'. on_outcome (k s') f)"
| "on_outcome Out_of_fuel f = Out_of_fuel"

definition on_return :: "coro \<Rightarrow> (pyval \<Rightarrow> proto \<Rightarrow> coro) \<Rightarrow> coro" where
  "on_return c f = on_outcome c (\<lambda>r s. case r of Inl e \<Rightarrow> Finished (Inl e) s | Inr v \<Rightarrow> f v s)"

text \<open>
  \<^verbatim>\<open>await fut\<close>, as \<^verbatim>\<open>Future.__await__\<close> does it: a future that is done gives its result at
  once; otherwise the coroutine is suspended, and \<^verbatim>\<open>__await__\<close> raises \<^verbatim>\<open>RuntimeError\<close> when it
  is resumed with the future still pending.
\<close>

definition await_future :: "fut_id \<Rightarrow> proto \<Rightarrow> coro" where
  "await_future f s =
     (if fut_done (futures s f) then Finished (fut_result (futures s f)) s
      else Suspended (On_future f) s
             (\<lambda>s'. if fut_done (futures s' f) then Finished (fut_result (futures s' f)) s'
                   else Finished (Inl (RuntimeError ''await was not used with future'')) s'))"

text \<open>\<^verbatim>\<open>await self.writing_allowed.wait()\<close>: \<^verbatim>\<open>Event.wait\<close> returns at once when the flag is set.\<close>

definition wait_writing_allowed :: "proto \<Rightarrow> coro" where
  "wait_writing_allowed s =
     (if writing_allowed s then Finished (Inr (PyBool True)) s
      else Suspended On_writing_allowed s (\<lambda>s'. Finished (Inr (PyBool True)) s'))"

text \<open>
  The lines every public operation and \<^verbatim>\<open>close\<close> open with:
  \<^verbatim>\<open>if self.cancel_waiter is not None: await self.cancel_waiter\<close>, then the same on
  \<^verbatim>\<open>cancel_sent_waiter\<close>, which is cleared once awaited. Each field is read when its line
  runs: the second on the object as the first \<^verbatim>\<open>await\<close> left it.
\<close>

definition await_cancel :: "proto \<Rightarrow> coro" where
  "await_cancel s0 =
     on_return
       (case cancel_waiter s0 of
          None \<Rightarrow> Finished (Inr PyNone) s0
        | Some cw \<Rightarrow> await_future cw s0)
       (\<lambda>_ s. case cancel_sent_waiter s of
                None \<Rightarrow> Finished (Inr PyNone) s
              | Some csw \<Rightarrow>
                  on_return (await_future csw s)
                    (\<lambda>_ s. Finished (Inr PyNone) (s\<lparr>cancel_sent_waiter := None\<rparr>)))"

text \<open>\<^verbatim>\<open>return await self._new_waiter(timeout)\<close>.\<close>

definition await_new_waiter :: "real option \<Rightarrow> proto \<Rightarrow> coro" where
  "await_new_waiter timeout s =
     (case new_waiter timeout s of
        (Inl e, s) \<Rightarrow> Finished (Inl e) s
      | (Inr w, s) \<Rightarrow> await_future w s)"

subsection \<open>The \<^verbatim>\<open>Timer\<close> class\<close>

record timer =
  budget :: "real option"
  started :: real

definition Timer :: "real option \<Rightarrow> timer" where
  "Timer b = \<lparr>budget = b, started = 0\<rparr>"

definition timer_enter :: "timer \<Rightarrow> proto \<Rightarrow> timer" where
  "timer_enter t s = (if budget t \<noteq> None then t\<lparr>started := clock s\<rparr> else t)"

definition timer_exit :: "timer \<Rightarrow> proto \<Rightarrow> timer" where
  "timer_exit t s =
     (case budget t of
        Some b \<Rightarrow> t\<lparr>budget := Some (b - (clock s - started t))\<rparr>
      | None \<Rightarrow> t)"

definition get_remaining_budget :: "timer \<Rightarrow> real option" where
  "get_remaining_budget t = budget t"

subsection \<open>COPY IN\<close>

text \<open>
  Modelled from the spec: the constant \<^verbatim>\<open>_COPY_SIGNATURE\<close> (\<^verbatim>\<open>consts.pxi\<close>) is the canonical
  11-byte signature \<^verbatim>\<open>PGCOPY\n\xff\r\n\0\<close>, and the writers of \<^verbatim>\<open>WriteBuffer\<close> (\<^verbatim>\<open>buffer.pyx\<close>)
  write multi-byte integers big-endian. \<^verbatim>\<open>_ensure_rows_decoder()\<close> prepares the codecs of the
  statement's columns, which the model reads from \<open>rows_codecs\<close>.
\<close>

definition COPY_SIGNATURE :: "byte list" where
  "COPY_SIGNATURE = [80, 71, 67, 79, 80, 89, 10, 255, 13, 10, 0]"

definition int16_bytes :: "16 word \<Rightarrow> byte list" where
  "int16_bytes w = [ucast (drop_bit 8 w), ucast w]"

definition int32_bytes :: "32 word \<Rightarrow> byte list" where
  "int32_bytes w = [ucast (drop_bit 24 w), ucast (drop_bit 16 w), ucast (drop_bit 8 w), ucast w]"

text \<open>
  The tuple data of one row: \<^verbatim>\<open>codec.encode(settings, wbuf, row[i])\<close> for each column in turn.
  \<^verbatim>\<open>row[i]\<close> raises \<^verbatim>\<open>IndexError\<close> on a row that is too short. A row is given by its items.
\<close>

fun encode_columns :: "codec list \<Rightarrow> pyval list \<Rightarrow> nat \<Rightarrow> exc + byte list" where
  "encode_columns [] row i = Inr []"
| "encode_columns (c # cs) row i =
     (if i < length row then
        (case encode c (row ! i) of
           Inl e \<Rightarrow> Inl e
         | Inr b \<Rightarrow> (case encode_columns cs row (Suc i) of Inl e \<Rightarrow> Inl e | Inr bs \<Rightarrow> Inr (b @ bs)))
      else Inl (IndexError ''tuple index out of range''))"

text \<open>
  The loop over the records and the lines after it. The column count is written through the
  cast \<^verbatim>\<open><int16_t>num_cols\<close>.
\<close>

fun copy_in_rows :: "ext \<Rightarrow> codec list \<Rightarrow> pyval list list \<Rightarrow> byte list \<Rightarrow> timer \<Rightarrow> proto \<Rightarrow> coro" where
  "copy_in_rows x codecs [] wbuf tm s =
     Finished (Inr PyNone) (write_copy_data_msg (wbuf @ int16_bytes (- 1)) s)"
| "copy_in_rows x codecs (row # rows) wbuf tm s =
     (case encode_columns codecs row 0 of
        Inl e \<Rightarrow> Finished (Inl e) s
      | Inr bs \<Rightarrow>
          (let wbuf = wbuf @ int16_bytes (of_nat (length codecs)) @ bs in
           if length wbuf \<ge> COPY_BUFFER_SIZE x then
             (let tm = timer_enter tm s in
              on_outcome (wait_writing_allowed s)
                (\<lambda>r s. let tm = timer_exit tm s in
                   case r of
                     Inl e \<Rightarrow> Finished (Inl e) s
                   | Inr _ \<Rightarrow> copy_in_rows x codecs rows [] tm (write_copy_data_msg wbuf s)))
           else copy_in_rows x codecs rows wbuf tm s))"

text \<open>
  The reader is an asynchronous iterable, or an object without \<^verbatim>\<open>__aiter__\<close>. An iterable is
  given by what awaiting \<^verbatim>\<open>asyncio.wait_for(iterator.__anext__(), timeout=...)\<close> gives, step by
  step: a chunk, or an exception (\<^verbatim>\<open>asyncio.TimeoutError\<close> when \<^verbatim>\<open>wait_for\<close> times out); at the end
  of the list \<^verbatim>\<open>__anext__\<close> raises \<^verbatim>\<open>StopAsyncIteration\<close>.
\<close>

datatype anext = Chunk "byte list" | Raises exc

datatype reader = Not_async_iterable | Async_iterable "anext list"

text \<open>One turn of the \<^verbatim>\<open>while True\<close> up to the \<^verbatim>\<open>await\<close> on the reader; \<open>k\<close> is the rest of the turn.\<close>

definition reader_turn :: "timer \<Rightarrow> proto \<Rightarrow> (timer \<Rightarrow> proto \<Rightarrow> coro) \<Rightarrow> coro" where
  "reader_turn tm s k =
     (let tm = timer_enter tm s in
      on_outcome (wait_writing_allowed s)
        (\<lambda>r s. let tm = timer_exit tm s in
           case r of
             Inl e \<Rightarrow> Finished (Inl e) s
           | Inr _ \<Rightarrow>
               (let tm = timer_enter tm s in
                Suspended (On_reader) s (\<lambda>s. k (timer_exit tm s) s))))"

fun copy_in_reader :: "anext list \<Rightarrow> timer \<Rightarrow> proto \<Rightarrow> coro" where
  "copy_in_reader [] tm s = reader_turn tm s (\<lambda>tm s. Finished (Inr PyNone) s)"
| "copy_in_reader (Chunk c # steps) tm s =
     reader_turn tm s (\<lambda>tm s. copy_in_reader steps tm (write_copy_data_msg c s))"
| "copy_in_reader (Raises e # steps) tm s =
     reader_turn tm s
       (\<lambda>tm s. if e = StopAsyncIteration then Finished (Inr PyNone) s else Finished (Inl e) s)"

text \<open>The body of the \<^verbatim>\<open>try\<close> statement of \<^verbatim>\<open>copy_in\<close>.\<close>

definition copy_in_body ::
    "ext \<Rightarrow> reader option \<Rightarrow> byte list \<Rightarrow> pyval list list \<Rightarrow> stmt_id option \<Rightarrow> timer \<Rightarrow> proto \<Rightarrow> coro" where
  "copy_in_body x rd data records record_stmt tm s =
     (case record_stmt of
        Some rs \<Rightarrow>
          (let wbuf = COPY_SIGNATURE @ int32_bytes 0 @ int32_bytes 0;
               codecs = rows_codecs (stmts s rs)
           in case find (\<lambda>c. \<not> has_encoder c) codecs of
                Some c \<Rightarrow> Finished (Inl (RuntimeError (''no encoder for OID '' @ str_int (int (oid c))))) s
              | None \<Rightarrow> copy_in_rows x codecs records wbuf tm s)
      | None \<Rightarrow>
          (case rd of
             Some Not_async_iterable \<Rightarrow>
               Finished (Inl (TypeError ''reader is not an asynchronous iterable'')) s
           | Some (Async_iterable steps) \<Rightarrow> copy_in_reader steps tm s
           | None \<Rightarrow>
               on_return (wait_writing_allowed s)
                 (\<lambda>_ s. Finished (Inr PyNone) (write_copy_data_msg data s))))"

text \<open>
  The handlers of the \<^verbatim>\<open>try\<close> statement and the lines after it. In the first handler the
  exception of \<^verbatim>\<open>await waiter\<close> propagates whether or not \<^verbatim>\<open>except TimeoutError: raise\<close> names
  it. Every value of \<open>exc\<close> is an instance of \<^verbatim>\<open>Exception\<close>.
\<close>

definition copy_in_handlers :: "fut_id \<Rightarrow> exc + pyval \<Rightarrow> proto \<Rightarrow> coro" where
  "copy_in_handlers w r s =
     (case r of
        Inl e \<Rightarrow>
          if e = TimeoutError then
            (let s = write_copy_fail_msg ''TimeoutError'' s in
             case on_timeout (waiter s) s of
               (Some e', s) \<Rightarrow> Finished (Inl e') s
             | (None, s) \<Rightarrow>
                 on_return (await_future w s)
                   (\<lambda>_ s. Finished (Inl (RuntimeError ''TimoutError was not raised'')) s))
          else
            (let s = write_copy_fail_msg (str_exc e) s;
                 s = request_cancel s
             in Finished (Inl e) s)
      | Inr _ \<Rightarrow>
          (let s = write_copy_done_msg s in await_future w s))"

definition copy_in_guarded ::
    "ext \<Rightarrow> fut_id \<Rightarrow> reader option \<Rightarrow> byte list \<Rightarrow> pyval list list \<Rightarrow> stmt_id option \<Rightarrow> timer
       \<Rightarrow> proto \<Rightarrow> coro" where
  "copy_in_guarded x w rd data records record_stmt tm s =
     on_outcome (copy_in_body x rd data records record_stmt tm s) (copy_in_handlers w)"

subsection \<open>COPY OUT\<close>

text \<open>
  The sink is given by what awaiting \<^verbatim>\<open>asyncio.wait_for(sink(buffer), timeout=...)\<close> raises, if
  anything, when it is resumed. The \<^verbatim>\<open>while True\<close> of \<^verbatim>\<open>copy_out\<close> takes one result of the
  engine per turn and has no bound of its own; the first argument bounds the turns the model
  follows.
\<close>

fun truthy :: "pyval \<Rightarrow> bool" where
  "truthy PyNone = False"
| "truthy (PyBool b) = b"
| "truthy (PyInt i) = (i \<noteq> 0)"
| "truthy (PyStr v) = (v \<noteq> [])"
| "truthy (PyBytes v) = (v \<noteq> [])"
| "truthy (PyTuple v) = (v \<noteq> [])"
| "truthy (PyList v) = (v \<noteq> [])"
| "truthy (PyDict v) = (v \<noteq> [])"
| "truthy (PyExc e) = True"
| "truthy (PyStmt st) = True"

fun copy_out_loop :: "nat \<Rightarrow> (pyval \<Rightarrow> proto \<Rightarrow> exc option) \<Rightarrow> fut_id \<Rightarrow> timer \<Rightarrow> proto \<Rightarrow> coro" where
  "copy_out_loop 0 sink w tm s = Out_of_fuel"
| "copy_out_loop (Suc n) sink w tm s =
     (let s = resume_reading s; tm = timer_enter tm s in
      on_outcome (await_future w s)
        (\<lambda>r s. let tm = timer_exit tm s in
           case r of
             Inl e \<Rightarrow> Finished (Inl e) s
           | Inr (PyTuple [buffer, done, status_msg]) \<Rightarrow>
               (let rest = (\<lambda>tm s.
                      if truthy done then Finished (Inr status_msg) s
                      else case new_waiter (get_remaining_budget tm) s of
                             (Inl e, s) \<Rightarrow> Finished (Inl e) s
                           | (Inr w', s) \<Rightarrow> copy_out_loop n sink w' tm s)
                in if truthy buffer then
                     (let tm = timer_enter tm s in
                      Suspended (On_sink buffer) s
                        (\<lambda>s. let tm = timer_exit tm s in
                           case sink buffer s of
                             Some e \<Rightarrow> Finished (Inl e) (request_cancel s)
                           | None \<Rightarrow> rest tm s))
                   else rest tm s)
           | Inr _ \<Rightarrow> Finished (Inl (TypeError ''cannot unpack the result'')) s))"

subsection \<open>The public operations\<close>

text \<open>
  A call of one of the nine public operations, with its arguments. The first argument of
  \<open>Copy_out\<close> is the bound on the turns of its loop (see above); the arguments of
  \<open>Bind_execute_many\<close> are the list the iterable yields.
\<close>

datatype op_call =
    Prepare string string timeout_arg
  | Bind_execute stmt_id pyval string int bool timeout_arg
  | Bind_execute_many stmt_id "pyval list" string timeout_arg
  | Bind stmt_id pyval string timeout_arg
  | Execute stmt_id string int bool timeout_arg
  | Query string timeout_arg
  | Copy_out nat string "pyval \<Rightarrow> proto \<Rightarrow> exc option" timeout_arg
  | Copy_in string "reader option" "byte list" "pyval list list" "stmt_id option" timeout_arg
  | Close_statement stmt_id timeout_arg

text \<open>What each operation does after \<^verbatim>\<open>self._check_state()\<close> has returned.\<close>

fun after_check :: "ext \<Rightarrow> op_call \<Rightarrow> proto \<Rightarrow> coro" where
  "after_check x (Prepare stmt_name q timeout) s =
     (case get_timeout_impl timeout s of
        Inl e \<Rightarrow> Finished (Inl e) s
      | Inr t \<Rightarrow>
          (let s = core_prepare stmt_name q s;
               s = s\<lparr>last_query := Some q\<rparr>;
               (st, s) = new_statement stmt_name q s;
               s = s\<lparr>statement := Some st\<rparr>
           in await_new_waiter t s))"
| "after_check x (Bind_execute st args portal_name limit ret_extra timeout) s =
     (case get_timeout_impl timeout s of
        Inl e \<Rightarrow> Finished (Inl e) s
      | Inr t \<Rightarrow>
          (case encode_bind_msg x (stmts s st) args of
             Inl e \<Rightarrow> Finished (Inl e) s
           | Inr data \<Rightarrow>
               (let s = core_bind_execute portal_name (name (stmts s st)) data limit s;
                    s = s\<lparr>last_query := Some (query_text (stmts s st))\<rparr>;
                    s = s\<lparr>statement := Some st\<rparr>;
                    s = s\<lparr>return_extra := ret_extra\<rparr>;
                    s = s\<lparr>queries_count := queries_count s + 1\<rparr>
                in await_new_waiter t s)))"
| "after_check x (Bind_execute_many st args portal_name timeout) s =
     (case get_timeout_impl timeout s of
        Inl e \<Rightarrow> Finished (Inl e) s
      | Inr t \<Rightarrow>
          (let arg_bufs = map (encode_bind_msg x (stmts s st)) args in
           case new_waiter t s of
             (Inl e, s) \<Rightarrow> Finished (Inl e) s
           | (Inr w, s) \<Rightarrow>
               (case core_bind_execute_many portal_name (name (stmts s st)) arg_bufs s of
                  (Some e, s) \<Rightarrow> Finished (Inl e) s
                | (None, s) \<Rightarrow>
                    (let s = s\<lparr>last_query := Some (query_text (stmts s st))\<rparr>;
                         s = s\<lparr>statement := Some st\<rparr>;
                         s = s\<lparr>return_extra := False\<rparr>;
                         s = s\<lparr>queries_count := queries_count s + 1\<rparr>
                     in await_future w s))))"
| "after_check x (Bind st args portal_name timeout) s =
     (case get_timeout_impl timeout s of
        Inl e \<Rightarrow> Finished (Inl e) s
      | Inr t \<Rightarrow>
          (case encode_bind_msg x (stmts s st) args of
             Inl e \<Rightarrow> Finished (Inl e) s
           | Inr data \<Rightarrow>
               (let s = core_bind portal_name (name (stmts s st)) data s;
                    s = s\<lparr>last_query := Some (query_text (stmts s st))\<rparr>;
                    s = s\<lparr>statement := Some st\<rparr>
                in await_new_waiter t s)))"
| "after_check x (Execute st portal_name limit ret_extra timeout) s =
     (case get_timeout_impl timeout s of
        Inl e \<Rightarrow> Finished (Inl e) s
      | Inr t \<Rightarrow>
          (let s = core_execute portal_name limit s;
               s = s\<lparr>last_query := Some (query_text (stmts s st))\<rparr>;
               s = s\<lparr>statement := Some st\<rparr>;
               s = s\<lparr>return_extra := ret_extra\<rparr>;
               s = s\<lparr>queries_count := queries_count s + 1\<rparr>
           in await_new_waiter t s))"
| "after_check x (Query q timeout) s =
     (case get_timeout timeout s of
        Inl e \<Rightarrow> Finished (Inl e) s
      | Inr t \<Rightarrow>
          (let s = core_simple_query q s;
               s = s\<lparr>last_query := Some q\<rparr>;
               s = s\<lparr>queries_count := queries_count s + 1\<rparr>
           in await_new_waiter t s))"
| "after_check x (Copy_out turns copy_stmt sink timeout) s =
     (case get_timeout_impl timeout s of
        Inl e \<Rightarrow> Finished (Inl e) s
      | Inr t \<Rightarrow>
          (let tm = Timer t in
           case new_waiter (get_remaining_budget tm) s of
             (Inl e, s) \<Rightarrow> Finished (Inl e) s
           | (Inr w, s) \<Rightarrow>
               (let s = core_copy_out copy_stmt s in
                on_outcome (copy_out_loop turns sink w tm s)
                  (\<lambda>r s. Finished r (resume_reading s)))))"
| "after_check x (Copy_in copy_stmt rd data records record_stmt timeout) s =
     (case get_timeout_impl timeout s of
        Inl e \<Rightarrow> Finished (Inl e) s
      | Inr t \<Rightarrow>
          (let tm = Timer t in
           case new_waiter (get_remaining_budget tm) s of
             (Inl e, s) \<Rightarrow> Finished (Inl e) s
           | (Inr w, s) \<Rightarrow>
               (let s = core_copy_in copy_stmt s in
                copy_in_guarded x w rd data records record_stmt tm s)))"
| "after_check x (Close_statement st timeout) s =
     (case get_timeout_impl timeout s of
        Inl e \<Rightarrow> Finished (Inl e) s
      | Inr t \<Rightarrow>
          if refs (stmts s st) \<noteq> 0 then
            Finished (Inl (RuntimeError (''cannot close prepared statement; refs == ''
                                          @ str_int (refs (stmts s st)) @ '' != 0''))) s
          else
            (let s = core_close (name (stmts s st)) False s;
                 s = s\<lparr>stmts := (stmts s)(st := (stmts s st)\<lparr>closed := True\<rparr>)\<rparr>
             in await_new_waiter t s))"

text \<open>
  A public operation: the seven lines all nine open with (the cancel sequence is awaited,
  then \<^verbatim>\<open>self._check_state()\<close>), and then the operation's own lines.
\<close>

definition checked :: "ext \<Rightarrow> op_call \<Rightarrow> proto \<Rightarrow> coro" where
  "checked x c s =
     (case check_state s of
        Some e \<Rightarrow> Finished (Inl e) s
      | None \<Rightarrow> after_check x c s)"

definition operation :: "ext \<Rightarrow> op_call \<Rightarrow> proto \<Rightarrow> coro" where
  "operation x c s0 = on_return (await_cancel s0) (\<lambda>_ s. checked x c s)"

text \<open>\<^verbatim>\<open>close()\<close>.\<close>

definition close :: "proto \<Rightarrow> coro" where
  "close s0 =
     on_return (await_cancel s0)
       (\<lambda>_ s. case handle_waiter_on_connection_lost None s of
                (Some e, s) \<Rightarrow> Finished (Inl e) s
              | (None, s) \<Rightarrow>
                  if waiter s \<noteq> None then Finished (Inl AssertionError) s
                  else if closing s then Finished (Inr PyNone) s
                  else
                    (let s = terminate s;
                         (w, s) = create_future s;
                         s = s\<lparr>waiter := Some w\<rparr>;
                         s = s\<lparr>closing := True\<rparr>;
                         s = transport_call Transport_abort s
                     in await_future w s))"

subsection \<open>Running a coroutine\<close>

text \<open>
  The event loop resumes a suspended coroutine after it has run other callbacks. A run is
  given by what the loop did to the object during each suspension, in order. It ends when
  the coroutine has finished, with the suspensions that were not needed, or when the list
  is used up and the coroutine still waits.
\<close>

datatype outcome =
    Ended "exc + pyval" proto "(proto \<Rightarrow> proto) list"
  | Waiting awaited proto
  | Gave_up

fun run :: "(proto \<Rightarrow> proto) list \<Rightarrow> coro \<Rightarrow> outcome" where
  "run es (Finished r s) = Ended r s es"
| "run [] (Suspended a s k) = Waiting a s"
| "run (e # es) (Suspended a s k) = run es (k (e s))"
| "run es Out_of_fuel = Gave_up"

subsection \<open>Example objects\<close>

text \<open>
  A connected, idle protocol object, the collaborators used in the examples, and the object
  after \<^verbatim>\<open>_new_waiter(5)\<close> and after the timer armed there has fired.
\<close>

definition idle :: proto where
  "idle =
     \<lparr>waiter = None, cancel_waiter = None, cancel_sent_waiter = None, statement = None,
      return_extra = False, last_query = None, closing = False, is_reading = True,
      writing_allowed = True, timeout_handle = None, queries_count = 0,
      state = PROTOCOL_IDLE, result_type = RESULT_OK, result = PyNone,
      result_status_msg = PyNone, result_param_desc = PyNone, result_row_desc = PyNone,
      result_execute_completed = False, encoding = ''utf-8'', command_timeout = None,
      futures = (\<lambda>_. Pending), next_future = 0,
      timers = (\<lambda>_. \<lparr>th_delay = 0, th_arg = 0, th_cancelled = True\<rparr>), next_handle = 0,
      stmts = (\<lambda>_. \<lparr>name = [], query_text = [], refs = 0, closed = False, args_desc = PyNone,
                     row_desc = PyNone, rows_codecs = []\<rparr>), next_stmt = 0,
      wire = [], transport_calls = [], cancel_commands = [], clock = 0\<rparr>"

definition ext0 :: ext where
  "ext0 = \<lparr>ASYNCPG_DEBUG = False, COPY_BUFFER_SIZE = 32,
            decode = (\<lambda>enc b. Inr (map (\<lambda>w. char_of (unat w)) b)),
            encode_bind_msg = (\<lambda>st args. Inr [])\<rparr>"

definition armed :: proto where
  "armed = snd (new_waiter (Some 5) idle)"

definition timed_out :: proto where
  "timed_out = snd (timer_fires 0 armed)"

definition closing_down :: proto where
  "closing_down = armed\<lparr>closing := True\<rparr>"


subsection \<open>Fields a terminal result leaves alone\<close>

text \<open>
  \<open>other_fields\<close> lists the fields of the object that the processing of a terminal result
  never assigns; \<open>hook_frame\<close> adds the fields that the result hooks themselves (the
  \<^verbatim>\<open>_on_result__*\<close> methods) never assign.
\<close>

definition other_fields where
  "other_fields s =
     (cancel_sent_waiter s, closing s, writing_allowed s, queries_count s, state s,
      result_type s, result s, result_status_msg s, result_param_desc s, result_row_desc s,
      result_execute_completed s, encoding s, command_timeout s, next_future s, next_handle s,
      next_stmt s, wire s, cancel_commands s, clock s)"

definition hook_frame where
  "hook_frame s =
     (other_fields s, waiter s, cancel_waiter s, timeout_handle s, timers s, statement s,
      last_query s, return_extra s)"

subsection \<open>Which timeout each operation resolves, and how\<close>






subsection \<open>What holds along every run of a coroutine\<close>


text \<open>The frames that end a COPY IN: CopyDone and CopyFail.\<close>

fun is_copy_end :: "wire_msg \<Rightarrow> bool" where
  "is_copy_end CopyDone_msg = True"
| "is_copy_end (CopyFail_msg cause) = True"
| "is_copy_end m = False"

definition copy_ends :: "proto \<Rightarrow> wire_msg list" where
  "copy_ends s = filter is_copy_end (wire s)"



subsection \<open>The binary COPY stream, as the spec words it\<close>

text \<open>
  The header is the signature, a 4-byte zero flags field and a 4-byte zero header-extension
  length. A row is framed as the int16 column count followed by the codec-encoded value of
  each column. \<open>flush_chunks th buf frames\<close> are the CopyData payloads: the frames are
  appended to the buffer in order, the buffer is flushed as soon as its length has reached
  the threshold, and the last payload ends with the int16 terminator \<open>-1\<close>. A row is
  encodable when it has a value for every codec and every codec encodes its value.
\<close>

definition copy_header :: "byte list" where
  "copy_header = COPY_SIGNATURE @ int32_bytes 0 @ int32_bytes 0"

definition tuple_data :: "codec list \<Rightarrow> pyval list \<Rightarrow> byte list" where
  "tuple_data codecs row =
     concat (map (\<lambda>(c, v). case encode c v of Inr b \<Rightarrow> b | Inl e \<Rightarrow> []) (zip codecs row))"

definition row_frame :: "codec list \<Rightarrow> pyval list \<Rightarrow> byte list" where
  "row_frame codecs row = int16_bytes (of_nat (length codecs)) @ tuple_data codecs row"

definition encodable :: "codec list \<Rightarrow> pyval list \<Rightarrow> bool" where
  "encodable codecs row =
     (length codecs \<le> length row
      \<and> list_all (\<lambda>(c, v). case encode c v of Inr b \<Rightarrow> True | Inl e \<Rightarrow> False) (zip codecs row))"

fun flush_chunks :: "nat \<Rightarrow> byte list \<Rightarrow> byte list list \<Rightarrow> byte list list" where
  "flush_chunks th buf [] = [buf @ int16_bytes (- 1)]"
| "flush_chunks th buf (f # fs) =
     (if th \<le> length (buf @ f) then (buf @ f) # flush_chunks th [] fs
      else flush_chunks th (buf @ f) fs)"

subsection \<open>Example codecs, statements and COPY IN calls\<close>

definition int4_codec :: codec where
  "int4_codec =
     \<lparr>oid = 23, has_encoder = True,
      encode = (\<lambda>v. case v of
                  PyInt i \<Rightarrow> Inr (int32_bytes 4 @ int32_bytes (word_of_int i))
                | _ \<Rightarrow> Inl (OtherError ''an integer is required''))\<rparr>"

definition text_codec :: codec where
  "text_codec =
     \<lparr>oid = 25, has_encoder = True,
      encode = (\<lambda>v. case v of
                  PyStr t \<Rightarrow> Inr (int32_bytes (of_nat (length t)) @ map (\<lambda>c. of_nat (of_char c)) t)
                | _ \<Rightarrow> Inl (OtherError ''expected str''))\<rparr>"



definition two_records :: "pyval list list" where
  "two_records = [[PyInt 1, PyStr ''a''], [PyInt 2, PyStr ''b'']]"





definition result_arrives :: "proto \<Rightarrow> proto" where
  "result_arrives s = snd (on_result ext0 s)"

definition cancel_request_sent :: "proto \<Rightarrow> proto" where
  "cancel_request_sent s = snd (set_result 2 PyNone s)"


fun waits_for :: "outcome \<Rightarrow> awaited option" where
  "waits_for (Ended r s rest) = None"
| "waits_for (Waiting a s) = Some a"
| "waits_for Gave_up = None"



section \<open>Properties\<close>

subsection \<open>Auxiliary facts\<close>

lemma request_cancel_eq:
  "request_cancel s =
     s\<lparr>futures := (futures s)(next_future s := Pending, Suc (next_future s) := Pending),
       next_future := Suc (Suc (next_future s)),
       cancel_waiter := Some (next_future s),
       cancel_sent_waiter := Some (Suc (next_future s)),
       cancel_commands := cancel_commands s @ [Suc (next_future s)],
       state := PROTOCOL_CANCELLED\<rparr>"
  by (simp add: request_cancel_def create_future_def set_state_def)

lemma armed_eq:
  "armed = idle\<lparr>futures := (futures idle)(0 := Pending), next_future := 1, waiter := Some 0,
     timers := (timers idle)(0 := \<lparr>th_delay = 5, th_arg = 0, th_cancelled = False\<rparr>),
     next_handle := 1, timeout_handle := Some 0\<rparr>"
  by (simp add: armed_def new_waiter_def idle_def create_future_def call_later_def)

subsection \<open>The timer callback\<close>

text \<open>
  Claim C3. \<^verbatim>\<open>_new_waiter(t)\<close> arms a timer for the waiter it creates, and the loop calls
  \<^verbatim>\<open>_on_timeout\<close> with that waiter when the timer fires. If the waiter is still the current
  waiter and not done, no cancel is in progress and the timeout handle is still set, the
  callback issues \<^verbatim>\<open>_request_cancel()\<close> and fails that waiter with \<^verbatim>\<open>TimeoutError\<close>; in every
  other case it leaves the object as it found it. Neither way does it raise.
\<close>

theorem on_timeout_cancels_and_fails_the_waiter:
  "(new_waiter (Some t) s0 = (Inr w, s1) \<longrightarrow>
      waiter s1 = Some w \<and> futures s1 w = Pending \<and> timeout_handle s1 = Some (next_handle s0)
      \<and> timers s1 (next_handle s0) = \<lparr>th_delay = t, th_arg = w, th_cancelled = False\<rparr>)
   \<and> timer_fires h s =
       (if th_cancelled (timers s h) then (None, s) else on_timeout (Some (th_arg (timers s h))) s)
   \<and> on_timeout (Some f) s =
       (if waiter s = Some f \<and> futures s f = Pending \<and> cancel_waiter s = None \<and> timeout_handle s \<noteq> None
        then (None, (request_cancel s)\<lparr>futures := (futures (request_cancel s))(f := Failed TimeoutError)\<rparr>)
        else (None, s))"
  by (auto simp: new_waiter_def create_future_def call_later_def timer_fires_def on_timeout_def
        request_cancel_eq set_exception_def fut_done_def Let_def split: option.splits if_splits)

theorem on_timeout_cancels_and_fails_the_waiter_witness:
  "new_waiter (Some 5) idle = (Inr 0, armed) \<and> fst (timer_fires 0 armed) = None
   \<and> futures timed_out 0 = Failed TimeoutError \<and> cancel_waiter timed_out = Some 1
   \<and> cancel_sent_waiter timed_out = Some 2 \<and> cancel_commands timed_out = [2]
   \<and> state timed_out = PROTOCOL_CANCELLED \<and> timer_fires 0 timed_out = (None, timed_out)"
  using on_timeout_cancels_and_fails_the_waiter [of 5 idle 0 armed 0 armed 0]
  by (simp add: timed_out_def armed_eq request_cancel_eq)
     (simp add: idle_def new_waiter_def create_future_def call_later_def timer_fires_def
        on_timeout_def fut_done_def)

subsection \<open>Cancellation\<close>

text \<open>
  Claim C4. \<^verbatim>\<open>_request_cancel\<close> creates two fresh pending futures, \<open>cancel_waiter\<close> and
  \<open>cancel_sent_waiter\<close>, hands the second to the connection's cancel callback and moves the
  engine to \<open>CANCELLED\<close>, changing nothing else. When a terminal result then arrives while
  \<open>cancel_waiter\<close> is set (and still pending, as it was created), \<^verbatim>\<open>_on_result\<close> disarms the
  timer, resolves \<open>cancel_waiter\<close> with \<^verbatim>\<open>None\<close> and clears it, and clears the waiter slot: no
  other future is touched, so no waiter is completed with the result.
\<close>

theorem request_cancel_then_result_is_discarded:
  "request_cancel s =
     s\<lparr>futures := (futures s)(next_future s := Pending, Suc (next_future s) := Pending),
       next_future := Suc (Suc (next_future s)),
       cancel_waiter := Some (next_future s),
       cancel_sent_waiter := Some (Suc (next_future s)),
       cancel_commands := cancel_commands s @ [Suc (next_future s)],
       state := PROTOCOL_CANCELLED\<rparr>
   \<and> (cancel_waiter s = Some cw \<and> futures s cw = Pending \<longrightarrow>
        on_result x s =
          (None, s\<lparr>timeout_handle := None,
                   timers := (case timeout_handle s of
                                Some h \<Rightarrow> (timers s)(h := (timers s h)\<lparr>th_cancelled := True\<rparr>)
                              | None \<Rightarrow> timers s),
                   futures := (futures s)(cw := Resolved PyNone),
                   cancel_waiter := None, waiter := None\<rparr>))"
  by (auto simp: request_cancel_eq on_result_def cancel_handle_def and_then_def set_result_def Let_def
        split: option.splits)

theorem request_cancel_then_result_is_discarded_witness:
  "cancel_waiter timed_out = Some 1 \<and> futures timed_out 1 = Pending
   \<and> fst (on_result ext0 timed_out) = None
   \<and> cancel_waiter (snd (on_result ext0 timed_out)) = None
   \<and> waiter (snd (on_result ext0 timed_out)) = None
   \<and> futures (snd (on_result ext0 timed_out)) 1 = Resolved PyNone
   \<and> futures (snd (on_result ext0 timed_out)) 0 = Failed TimeoutError"
  using request_cancel_then_result_is_discarded [of timed_out 1 ext0]
  by (simp add: timed_out_def armed_eq timer_fires_def on_timeout_def fut_done_def
        request_cancel_eq set_exception_def idle_def)

subsection \<open>Loss of the connection\<close>

text \<open>
  Claim C7. When the transport is lost while an operation is in flight (the waiter is set
  and not done) and the dispatcher is not closing, \<^verbatim>\<open>_on_connection_lost\<close> sets \<open>closing\<close>,
  fails the waiter with \<^verbatim>\<open>ConnectionDoesNotExistError\<close> whose cause is the transport's error
  (none when there is none), and clears the waiter slot. When \<open>closing\<close> is already set, the
  pending waiter is completed with \<^verbatim>\<open>None\<close>, or failed with the transport's error itself when
  there is one, and the slot is cleared.
\<close>

theorem connection_lost_fails_or_completes_the_waiter:
  "(\<not> closing s \<and> waiter s = Some w \<and> futures s w = Pending \<longrightarrow>
      on_connection_lost cause s =
        (None, s\<lparr>closing := True, waiter := None,
                 futures := (futures s)(w := Failed (ConnectionDoesNotExistError
                    ''connection was closed in the middle of operation'' cause))\<rparr>))
   \<and> (closing s \<and> waiter s = Some w \<and> futures s w = Pending \<longrightarrow>
      on_connection_lost cause s =
        (None, s\<lparr>waiter := None,
                 futures := (futures s)(w := (case cause of None \<Rightarrow> Resolved PyNone | Some e \<Rightarrow> Failed e))\<rparr>))"
  by (auto simp: on_connection_lost_def handle_waiter_on_connection_lost_def and_then_def
        set_exception_def set_result_def fut_done_def split: option.splits)

theorem connection_lost_fails_or_completes_the_waiter_witness:
  "\<not> closing armed \<and> waiter armed = Some 0 \<and> futures armed 0 = Pending
   \<and> fst (on_connection_lost (Some (OtherError ''reset'')) armed) = None
   \<and> futures (snd (on_connection_lost (Some (OtherError ''reset'')) armed)) 0 =
       Failed (ConnectionDoesNotExistError ''connection was closed in the middle of operation''
                 (Some (OtherError ''reset'')))
   \<and> waiter (snd (on_connection_lost (Some (OtherError ''reset'')) armed)) = None
   \<and> closing (snd (on_connection_lost (Some (OtherError ''reset'')) armed))
   \<and> closing closing_down \<and> waiter closing_down = Some 0 \<and> futures closing_down 0 = Pending
   \<and> futures (snd (on_connection_lost None closing_down)) 0 = Resolved PyNone
   \<and> futures (snd (on_connection_lost (Some (OtherError ''reset'')) closing_down)) 0 =
       Failed (OtherError ''reset'')
   \<and> waiter (snd (on_connection_lost None closing_down)) = None"
  using connection_lost_fails_or_completes_the_waiter [of armed 0 "Some (OtherError ''reset'')"]
    connection_lost_fails_or_completes_the_waiter [of closing_down 0 None]
    connection_lost_fails_or_completes_the_waiter [of closing_down 0 "Some (OtherError ''reset'')"]
  by (simp add: closing_down_def armed_eq idle_def)

subsection \<open>Terminal results: what is reset and what is left alone\<close>

lemma hook_frame_set_result [simp]: "hook_frame (snd (set_result w v s)) = hook_frame s"
  by (simp add: set_result_def hook_frame_def other_fields_def)


lemma hook_frame_stmts [simp]: "hook_frame (s\<lparr>stmts := f\<rparr>) = hook_frame s"
  by (simp add: hook_frame_def other_fields_def)

lemma hook_frame_pause_reading [simp]: "hook_frame (pause_reading s) = hook_frame s"
  by (simp add: pause_reading_def transport_call_def hook_frame_def other_fields_def)




lemma is_reading_set_result [simp]: "is_reading (snd (set_result w v s)) = is_reading s"
  by (simp add: set_result_def)

lemma is_reading_set_exception [simp]: "is_reading (snd (set_exception w v s)) = is_reading s"
  by (simp add: set_exception_def)












subsection \<open>Closing\<close>






subsection \<open>Runs of coroutines\<close>






subsection \<open>COPY IN: exactly one CopyFail or CopyDone\<close>

lemma copy_ends_simps [simp]:
  "copy_ends (write_copy_data_msg d s) = copy_ends s"
  "copy_ends (write_copy_done_msg s) = copy_ends s @ [CopyDone_msg]"
  "copy_ends (write_copy_fail_msg m s) = copy_ends s @ [CopyFail_msg m]"
  "copy_ends (request_cancel s) = copy_ends s"
  "copy_ends (snd (set_exception f e s)) = copy_ends s"
  by (simp_all add: copy_ends_def write_copy_data_msg_def write_copy_done_msg_def
        write_copy_fail_msg_def write_msgs_def request_cancel_eq set_exception_def)

























subsection \<open>COPY IN of records: the binary stream\<close>





lemma int_bytes_simps:
  "int16_bytes (- 1) = [255, 255]" "int32_bytes 0 = [0, 0, 0, 0]"
proof -
  have m: "(- 1 :: 16 word) = 65535" by simp
  show "int16_bytes (- 1) = [255, 255]" unfolding m by (simp add: int16_bytes_def)
  show "int32_bytes 0 = [0, 0, 0, 0]" by (simp add: int32_bytes_def)
qed






lemma example_frames:
  "row_frame [int4_codec, text_codec] [PyInt 1, PyStr ''a'']
     = [0, 2, 0, 0, 0, 4, 0, 0, 0, 1, 0, 0, 0, 1, 97]"
  "row_frame [int4_codec, text_codec] [PyInt 2, PyStr ''b'']
     = [0, 2, 0, 0, 0, 4, 0, 0, 0, 2, 0, 0, 0, 1, 98]"
  "encodable [int4_codec, text_codec] [PyInt 1, PyStr ''a'']"
  "encodable [int4_codec, text_codec] [PyInt 2, PyStr ''b'']"
  "has_encoder int4_codec" "has_encoder text_codec"
  by (simp_all add: row_frame_def tuple_data_def encodable_def int4_codec_def text_codec_def
        int16_bytes_def int32_bytes_def)

lemma example_chunks:
  "flush_chunks (COPY_BUFFER_SIZE ext0) copy_header
     (map (row_frame [int4_codec, text_codec]) two_records)
   = [[80, 71, 67, 79, 80, 89, 10, 255, 13, 10, 0, 0, 0, 0, 0, 0, 0, 0, 0,
       0, 2, 0, 0, 0, 4, 0, 0, 0, 1, 0, 0, 0, 1, 97],
      [0, 2, 0, 0, 0, 4, 0, 0, 0, 2, 0, 0, 0, 1, 98, 255, 255]]"
  by (simp add: two_records_def example_frames ext0_def copy_header_def COPY_SIGNATURE_def
        int_bytes_simps)






subsection \<open>The opening lines of the public operations\<close>

lemma timed_out_fields:
  "cancel_waiter timed_out = Some (Suc 0)" "futures timed_out (Suc 0) = Pending"
  "cancel_sent_waiter timed_out = Some 2" "futures timed_out 2 = Pending"
  "waiter timed_out = Some 0" "timeout_handle timed_out = Some 0"
  by (simp_all add: timed_out_def armed_eq timer_fires_def on_timeout_def fut_done_def
        request_cancel_eq set_exception_def idle_def)

lemma result_arrives_fields:
  "cancel_waiter (result_arrives timed_out) = None"
  "futures (result_arrives timed_out) (Suc 0) = Resolved PyNone"
  "cancel_sent_waiter (result_arrives timed_out) = Some 2"
  "futures (result_arrives timed_out) 2 = Pending"
  "waiter (result_arrives timed_out) = None"
  "timeout_handle (result_arrives timed_out) = None"
  "closing (result_arrives timed_out) = False"
  "command_timeout (result_arrives timed_out) = None"
  "next_future (result_arrives timed_out) = 3"
  by (simp_all add: result_arrives_def on_result_def cancel_handle_def timed_out_fields
        and_then_def set_result_def)
     (simp_all add: timed_out_def armed_eq timer_fires_def on_timeout_def fut_done_def
        request_cancel_eq set_exception_def idle_def)

lemma cancel_request_sent_fields:
  "cancel_waiter (cancel_request_sent (result_arrives timed_out)) = None"
  "futures (cancel_request_sent (result_arrives timed_out)) 2 = Resolved PyNone"
  "waiter (cancel_request_sent (result_arrives timed_out)) = None"
  "timeout_handle (cancel_request_sent (result_arrives timed_out)) = None"
  "closing (cancel_request_sent (result_arrives timed_out)) = False"
  "command_timeout (cancel_request_sent (result_arrives timed_out)) = None"
  "next_future (cancel_request_sent (result_arrives timed_out)) = 3"
  by (simp_all add: cancel_request_sent_def set_result_def result_arrives_fields)

lemma query_after_check:
  assumes "waiter s = None" and "command_timeout s = None"
  shows "waits_for (run [] (after_check x (Query q T_None) s)) = Some (On_future (next_future s))"
  using assms
  by (simp add: get_timeout_def get_timeout_impl_def await_new_waiter_def new_waiter_def
        create_future_def await_future_def fut_done_def core_simple_query_def set_state_def
        write_msgs_def Let_def)

text \<open>
  Claim C1. Each of the nine public operations is the cancel drain followed by the state
  check and the operation's own lines. With no cancel in flight it goes straight to the
  check. With one in flight it suspends on \<^verbatim>\<open>cancel_waiter\<close>, then on \<^verbatim>\<open>cancel_sent_waiter\<close>
  (which it clears), and only then checks the state of the object as it is at that moment.
  The check raises \<^verbatim>\<open>InterfaceError\<close> when a cancel is in progress, when the connection is
  closing, or when a waiter or a timeout handle is set, in this order, and otherwise passes
  control to the operation's own lines.
\<close>

theorem public_operations_drain_the_cancel_then_check:
  "(cancel_waiter s = None \<and> cancel_sent_waiter s = None \<longrightarrow> operation x c s = checked x c s)
   \<and> (cancel_waiter s = Some cw \<and> futures s cw = Pending \<longrightarrow>
        run [] (operation x c s) = Waiting (On_future cw) s
        \<and> (futures (e s) cw = Resolved v \<and> cancel_sent_waiter (e s) = None \<longrightarrow>
             run (e # es) (operation x c s) = run es (checked x c (e s)))
        \<and> (futures (e s) cw = Resolved v \<and> cancel_sent_waiter (e s) = Some csw
             \<and> futures (e s) csw = Pending \<longrightarrow>
             run [e] (operation x c s) = Waiting (On_future csw) (e s)
             \<and> (futures (e' (e s)) csw = Resolved v' \<longrightarrow>
                  run (e # e' # es) (operation x c s)
                    = run es (checked x c ((e' (e s))\<lparr>cancel_sent_waiter := None\<rparr>))))
        \<and> (futures (e s) cw = Resolved v \<and> cancel_sent_waiter (e s) = Some csw
             \<and> futures (e s) csw = Resolved v' \<longrightarrow>
             run (e # es) (operation x c s)
               = run es (checked x c ((e s)\<lparr>cancel_sent_waiter := None\<rparr>))))
   \<and> (cancel_waiter s = None \<and> cancel_sent_waiter s = Some csw \<and> futures s csw = Pending \<longrightarrow>
        run [] (operation x c s) = Waiting (On_future csw) s
        \<and> (futures (e s) csw = Resolved v \<longrightarrow>
             run (e # es) (operation x c s)
               = run es (checked x c ((e s)\<lparr>cancel_sent_waiter := None\<rparr>))))
   \<and> (cancel_waiter s = None \<and> cancel_sent_waiter s = Some csw \<and> futures s csw = Resolved v \<longrightarrow>
        operation x c s = checked x c (s\<lparr>cancel_sent_waiter := None\<rparr>))
   \<and> checked x c s =
       (if cancel_waiter s \<noteq> None then
          Finished (Inl (InterfaceError ''cannot perform operation: another operation is cancelling'')) s
        else if closing s then
          Finished (Inl (InterfaceError ''cannot perform operation: connection is closed'')) s
        else if waiter s \<noteq> None \<or> timeout_handle s \<noteq> None then
          Finished (Inl (InterfaceError ''cannot perform operation: another operation is in progress'')) s
        else after_check x c s)"
  by (simp add: operation_def await_cancel_def on_return_def await_future_def fut_done_def
        checked_def check_state_def)

theorem public_operations_drain_the_cancel_then_check_witness:
  "operation ext0 (Query ''SELECT 1'' T_None) armed =
     Finished (Inl (InterfaceError ''cannot perform operation: another operation is in progress'')) armed
   \<and> operation ext0 (Query ''SELECT 1'' T_None) closing_down =
     Finished (Inl (InterfaceError ''cannot perform operation: connection is closed'')) closing_down
   \<and> checked ext0 (Query ''SELECT 1'' T_None) timed_out =
     Finished (Inl (InterfaceError ''cannot perform operation: another operation is cancelling'')) timed_out
   \<and> waits_for (run [] (operation ext0 (Query ''SELECT 1'' T_None) idle)) = Some (On_future 0)
   \<and> run [] (operation ext0 (Query ''SELECT 1'' T_None) timed_out) = Waiting (On_future 1) timed_out
   \<and> run [result_arrives] (operation ext0 (Query ''SELECT 1'' T_None) timed_out)
       = Waiting (On_future 2) (result_arrives timed_out)
   \<and> waits_for (run [result_arrives, cancel_request_sent]
                  (operation ext0 (Query ''SELECT 1'' T_None) timed_out)) = Some (On_future 3)"
proof -
  let ?q = "Query ''SELECT 1'' T_None"
  let ?s = "(cancel_request_sent (result_arrives timed_out))\<lparr>cancel_sent_waiter := None\<rparr>"
  have a: "cancel_waiter armed = None" "cancel_sent_waiter armed = None" "closing armed = False"
    "waiter armed = Some 0"
    by (simp_all add: armed_eq idle_def)
  have c: "cancel_waiter closing_down = None" "cancel_sent_waiter closing_down = None"
    "closing closing_down = True"
    by (simp_all add: closing_down_def armed_eq idle_def)
  have i: "cancel_waiter idle = None" "cancel_sent_waiter idle = None" "closing idle = False"
    "waiter idle = None" "timeout_handle idle = None" "command_timeout idle = None"
    "next_future idle = 0"
    by (simp_all add: idle_def)
  have 1: "operation ext0 ?q armed =
      Finished (Inl (InterfaceError ''cannot perform operation: another operation is in progress'')) armed"
    using public_operations_drain_the_cancel_then_check [where s = armed and c = ?q and x = ext0]
    by (simp add: a)
  have 2: "operation ext0 ?q closing_down =
      Finished (Inl (InterfaceError ''cannot perform operation: connection is closed'')) closing_down"
    using public_operations_drain_the_cancel_then_check [where s = closing_down and c = ?q and x = ext0]
    by (simp add: c)
  have 3: "checked ext0 ?q timed_out =
      Finished (Inl (InterfaceError ''cannot perform operation: another operation is cancelling'')) timed_out"
    using public_operations_drain_the_cancel_then_check [where s = timed_out and c = ?q and x = ext0]
    by (simp add: timed_out_fields)
  have "operation ext0 ?q idle = after_check ext0 ?q idle"
    using public_operations_drain_the_cancel_then_check [where s = idle and c = ?q and x = ext0]
    by (simp add: i)
  hence 4: "waits_for (run [] (operation ext0 ?q idle)) = Some (On_future 0)"
    using query_after_check [where s = idle and x = ext0 and q = "''SELECT 1''"]
    by (simp add: i)
  have t: "run [] (operation ext0 ?q timed_out) = Waiting (On_future 1) timed_out
     \<and> run [result_arrives] (operation ext0 ?q timed_out) = Waiting (On_future 2) (result_arrives timed_out)
     \<and> run [result_arrives, cancel_request_sent] (operation ext0 ?q timed_out) = run [] (checked ext0 ?q ?s)"
    using public_operations_drain_the_cancel_then_check
      [where s = timed_out and c = ?q and x = ext0 and cw = 1 and csw = 2
         and e = result_arrives and e' = cancel_request_sent and es = "[]"
         and v = PyNone and v' = PyNone]
    by (simp add: timed_out_fields result_arrives_fields cancel_request_sent_fields)
  have "checked ext0 ?q ?s = after_check ext0 ?q ?s"
    using public_operations_drain_the_cancel_then_check [where s = ?s and c = ?q and x = ext0]
    by (simp add: cancel_request_sent_fields)
  hence 5: "waits_for (run [result_arrives, cancel_request_sent] (operation ext0 ?q timed_out))
      = Some (On_future 3)"
    using t query_after_check [where s = ?s and x = ext0 and q = "''SELECT 1''"]
    by (simp add: cancel_request_sent_fields)
  from 1 2 3 4 5 t show ?thesis by simp
qed

subsection \<open>Resolution of the timeout argument\<close>




subsection \<open>Closing a prepared statement\<close>






end
